theory Spec2Isabelle
  imports Main
begin

section \<open>Values of the language\<close>

text \<open>
  The module \<^verbatim>\<open>packages/wmr/src/lib/net-utils.js\<close> works on JavaScript numbers, strings,
  booleans and promises. A number is modelled as an integer or \<open>NaN\<close>: ports, attempt
  counters and timestamps are integers, and \<^verbatim>\<open>parseInt\<close> yields an integer or \<open>NaN\<close>.
  The model agrees with the language on the integers a double holds exactly and prints in
  plain decimal notation; negative zero is not told apart from zero. A string is a list of
  8-bit characters.
\<close>

datatype jsnum = NaN | Fin int

text \<open>An error object: its \<^verbatim>\<open>code\<close> property (absent on a plain \<^verbatim>\<open>Error\<close>) and its message.\<close>

datatype js_error = JsError (code: "string option") (message: string)

text \<open>
  A promise is represented by the way it settles. \<^verbatim>\<open>await\<close> on a fulfilled promise gives
  its value, on a rejected one it throws the reason.
\<close>

datatype 'a promise = Fulfilled 'a | Rejected js_error

text \<open>The values that the module tests for truth or compares with \<^verbatim>\<open>undefined\<close>.\<close>

datatype jsval =
    Undefined
  | Boolean bool
  | Number jsnum
  | String string
  | Object "bool promise"

text \<open>\<^verbatim>\<open>ToBoolean\<close>: every object is truthy, whatever a promise settles to.\<close>

fun ToBoolean :: "jsval \<Rightarrow> bool" where
  "ToBoolean Undefined = False"
| "ToBoolean (Boolean b) = b"
| "ToBoolean (Number NaN) = False"
| "ToBoolean (Number (Fin n)) = (n \<noteq> 0)"
| "ToBoolean (String s) = (s \<noteq> [])"
| "ToBoolean (Object p) = True"

text \<open>The postfix increment \<^verbatim>\<open>port++\<close> on a number.\<close>

fun incr :: "jsnum \<Rightarrow> jsnum" where
  "incr NaN = NaN"
| "incr (Fin n) = Fin (n + 1)"

subsection \<open>Numbers to strings\<close>

fun digits :: "nat \<Rightarrow> string" where
  "digits n =
     (if n < 10 then [''0123456789'' ! n]
      else digits (n div 10) @ [''0123456789'' ! (n mod 10)])"

declare digits.simps [simp del]

text \<open>\<^verbatim>\<open>ToString\<close> of a number, as a template literal and string concatenation apply it.\<close>

fun NumberToString :: "jsnum \<Rightarrow> string" where
  "NumberToString NaN = ''NaN''"
| "NumberToString (Fin n) =
     (if n < 0 then ''-'' @ digits (nat (- n)) else digits (nat n))"

fun ToString :: "jsval \<Rightarrow> string" where
  "ToString Undefined = ''undefined''"
| "ToString (Boolean b) = (if b then ''true'' else ''false'')"
| "ToString (Number n) = NumberToString n"
| "ToString (String s) = s"
| "ToString (Object p) = ''[object Promise]''"

subsection \<open>Strings to numbers: \<^verbatim>\<open>parseInt(s, 10)\<close>\<close>

text \<open>
  White space of the language among 8-bit characters: TAB, LF, VT, FF, CR, SP and the
  no-break space.
\<close>

definition StrWhiteSpaceChar :: "char \<Rightarrow> bool" where
  "StrWhiteSpaceChar c = (of_char c \<in> {9, 10, 11, 12, 13, 32, 160 :: nat})"

definition digit_value :: "char \<Rightarrow> nat option" where
  "digit_value c =
     map_of (zip ''0123456789'' [0, 1, 2, 3, 4, 5, 6, 7, 8, 9]) c"

definition is_digit :: "char \<Rightarrow> bool" where
  "is_digit c = (digit_value c \<noteq> None)"

definition digits_value :: "string \<Rightarrow> int" where
  "digits_value Z = foldl (\<lambda>a c. 10 * a + int (the (digit_value c))) 0 Z"

text \<open>
  \<^verbatim>\<open>parseInt(string, 10)\<close>: skip leading white space, read an optional sign, then the
  longest run of decimal digits; no digit at all gives \<open>NaN\<close>.
\<close>

definition parseInt_10 :: "string \<Rightarrow> jsnum" where
  "parseInt_10 inputString =
     (let S = dropWhile StrWhiteSpaceChar inputString;
          sign = (if S \<noteq> [] \<and> hd S = CHR ''-'' then - 1 else 1);
          S' = (if S \<noteq> [] \<and> (hd S = CHR ''+'' \<or> hd S = CHR ''-'') then tl S else S);
          Z = takeWhile is_digit S'
      in if Z = [] then NaN else Fin (sign * digits_value Z))"

section \<open>The operating system and the process environment\<close>

text \<open>One entry of \<^verbatim>\<open>os.networkInterfaces()\<close>.\<close>

record iface =
  iface_family :: string
  iface_address :: string
  iface_internal :: bool

text \<open>
  What the module asks of its surroundings:
  \<^item> \<open>listen p\<close>: the outcome of \<^verbatim>\<open>net.createServer().listen({port: p}, ...)\<close> followed by
    \<^verbatim>\<open>close\<close>: \<open>None\<close> when the server came up and was closed, \<open>Some err\<close> when the
    server emitted the \<^verbatim>\<open>error\<close> event with \<open>err\<close> or \<^verbatim>\<open>listen\<close> itself threw \<open>err\<close> (either
    way the promise built around it is rejected with \<open>err\<close>);
  \<^item> \<open>env_PORT\<close>: \<^verbatim>\<open>process.env.PORT\<close>, a string when set;
  \<^item> \<open>networkInterfaces\<close>: the object \<^verbatim>\<open>os.networkInterfaces()\<close> returns, as its
    properties in enumeration order;
  \<^item> \<open>StringToNumber\<close>: the conversion unary \<^verbatim>\<open>+\<close> applies to a string, which belongs to
    the language and is left open here.
\<close>

record system =
  listen :: "jsnum \<Rightarrow> js_error option"
  env_PORT :: "string option"
  networkInterfaces :: "(string \<times> iface list) list"
  StringToNumber :: "string \<Rightarrow> jsnum"

section \<open>isPortFree\<close>

text \<open>
  \<^verbatim>\<open>
  export async function isPortFree(port) {
    try {
      await new Promise((resolve, reject) => {
        const server = net.createServer();
        server.unref();
        server.on('error', reject);
        server.listen({ port }, () => { server.close(resolve); });
      });
      return true;
    } catch (err) {
      if (err.code !== 'EADDRINUSE') throw err;
      return false;
    }
  }
  \<close>
\<close>

definition isPortFree :: "system \<Rightarrow> jsnum \<Rightarrow> bool promise" where
  "isPortFree sys port =
     (case listen sys port of
        None \<Rightarrow> Fulfilled True
      | Some err \<Rightarrow>
          if code err \<noteq> Some ''EADDRINUSE'' then Rejected err
          else Fulfilled False)"

section \<open>getFreePort\<close>

text \<open>
  \<^verbatim>\<open>
  export async function getFreePort(port) {
    let found = false;
    let attempts = 0;
    if (typeof port === 'string') port = parseInt(port, 10);
    // Limit to 20 attempts for now
    while (!found && attempts <= 20) {
      if (isPortFree(port)) break;
      port++;
      attempts++;
    }
    return port;
  }
  \<close>
  The condition of the \<^verbatim>\<open>if\<close> is the promise \<^verbatim>\<open>isPortFree\<close> returns, not its awaited
  value. The argument is a number or a string, as the function's documentation types it.
  The function has no \<^verbatim>\<open>await\<close> and no \<^verbatim>\<open>throw\<close>, so the promise it returns is
  fulfilled, with the final value of \<open>port\<close>; the promise of the probe is dropped and
  takes no part in that value.
\<close>

function getFreePort_while :: "system \<Rightarrow> bool \<Rightarrow> nat \<Rightarrow> jsnum \<Rightarrow> jsnum" where
  "getFreePort_while sys found attempts port =
     (if \<not> found \<and> attempts \<le> 20 then
        (if ToBoolean (Object (isPortFree sys port)) then port
         else getFreePort_while sys found (attempts + 1) (incr port))
      else port)"
  by pat_completeness auto
termination
  by (relation "measure (\<lambda>(sys, found, attempts, port). 21 - attempts)") auto

declare getFreePort_while.simps [simp del]

text \<open>The argument \<^verbatim>\<open>port\<close>, of type \<^verbatim>\<open>number|string\<close>; \<^verbatim>\<open>typeof\<close> tells the two apart.\<close>

datatype port_arg = PortNumber jsnum | PortString string

definition getFreePort :: "system \<Rightarrow> port_arg \<Rightarrow> jsnum promise" where
  "getFreePort sys port =
     (let found = False;
          attempts = 0;
          port' = (case port of PortString s \<Rightarrow> parseInt_10 s | PortNumber n \<Rightarrow> n)
      in Fulfilled (getFreePort_while sys found attempts port'))"

section \<open>getPort\<close>

text \<open>
  \<^verbatim>\<open>
  export async function getPort(options) {
    // Account for `port = 0`
    const userPort = typeof options.port === 'number' ? options.port : process.env.PORT;
    if (userPort !== undefined) {
      if (await isPortFree(+userPort)) {
        return +userPort;
      }
      throw new Error(`Another process is already running on port ${userPort}. Please choose a different port.`);
    }
    return await getFreePort(8080);
  }
  \<close>
\<close>

record port_options =
  options_port :: "port_arg option"

definition userPort :: "system \<Rightarrow> port_options \<Rightarrow> jsval" where
  "userPort sys options =
     (case options_port options of
        Some (PortNumber n) \<Rightarrow> Number n
      | _ \<Rightarrow> (case env_PORT sys of Some s \<Rightarrow> String s | None \<Rightarrow> Undefined))"

text \<open>Unary \<^verbatim>\<open>+\<close> on the requested port, which is a number or a string.\<close>

fun ToNumber :: "system \<Rightarrow> jsval \<Rightarrow> jsnum" where
  "ToNumber sys (Number n) = n"
| "ToNumber sys (String s) = StringToNumber sys s"
| "ToNumber sys Undefined = NaN"
| "ToNumber sys (Boolean b) = Fin (if b then 1 else 0)"
| "ToNumber sys (Object p) = NaN"

definition port_taken_message :: "jsval \<Rightarrow> string" where
  "port_taken_message u =
     ''Another process is already running on port '' @ ToString u
       @ ''. Please choose a different port.''"

definition getPort :: "system \<Rightarrow> port_options \<Rightarrow> jsnum promise" where
  "getPort sys options =
     (let u = userPort sys options
      in if u \<noteq> Undefined then
           (case isPortFree sys (ToNumber sys u) of
              Rejected err \<Rightarrow> Rejected err
            | Fulfilled free \<Rightarrow>
                if free then Fulfilled (ToNumber sys u)
                else Rejected (JsError None (port_taken_message u)))
         else getFreePort sys (PortNumber (Fin 8080)))"

section \<open>getServerAddresses\<close>

text \<open>
  \<^verbatim>\<open>
  export function getServerAddresses(addr, { host, https }) {
    if (typeof addr === 'string') { return [addr]; }
    const protocol = https ? 'https:' : 'http:';
    const port = addr.port;
    if (host !== '0.0.0.0') {
      return [`${protocol}//${host}:${port}`];
    }
    const ifaces = os.networkInterfaces();
    const addresses = [`${protocol}//localhost:${port}`];
    for (const name in ifaces) {
      for (const iface of ifaces[name]) {
        const { family, address, internal } = iface;
        if (family === 'IPv4' && address !== host && !internal) {
          addresses.push(`${protocol}//${address}:${port}`);
        }
      }
    }
    return addresses;
  }
  \<close>
\<close>

record AddressInfo =
  addr_address :: string
  addr_family :: string
  addr_port :: jsnum

datatype bound_addr = AddrString string | AddrInfo AddressInfo

record server_options =
  host :: string
  https :: "bool option"

definition origin :: "string \<Rightarrow> string \<Rightarrow> jsnum \<Rightarrow> string" where
  "origin protocol h port = protocol @ ''//'' @ h @ '':'' @ NumberToString port"

text \<open>The inner loop over the addresses of one interface, pushing onto \<open>addresses\<close>.\<close>

fun push_ifaces :: "string \<Rightarrow> string \<Rightarrow> jsnum \<Rightarrow> string list \<Rightarrow> iface list \<Rightarrow> string list" where
  "push_ifaces protocol h port addresses [] = addresses"
| "push_ifaces protocol h port addresses (i # rest) =
     (if iface_family i = ''IPv4'' \<and> iface_address i \<noteq> h \<and> \<not> iface_internal i
      then push_ifaces protocol h port (addresses @ [origin protocol (iface_address i) port]) rest
      else push_ifaces protocol h port addresses rest)"

text \<open>The outer loop over the interface names.\<close>

fun push_names ::
  "string \<Rightarrow> string \<Rightarrow> jsnum \<Rightarrow> string list \<Rightarrow> (string \<times> iface list) list \<Rightarrow> string list" where
  "push_names protocol h port addresses [] = addresses"
| "push_names protocol h port addresses ((name, is) # rest) =
     push_names protocol h port (push_ifaces protocol h port addresses is) rest"

definition getServerAddresses :: "system \<Rightarrow> bound_addr \<Rightarrow> server_options \<Rightarrow> string list" where
  "getServerAddresses sys addr options =
     (case addr of
        AddrString s \<Rightarrow> [s]
      | AddrInfo a \<Rightarrow>
          let protocol = (if ToBoolean (case https options of None \<Rightarrow> Undefined | Some b \<Rightarrow> Boolean b)
                          then ''https:'' else ''http:'');
              port = addr_port a
          in if host options \<noteq> ''0.0.0.0'' then [origin protocol (host options) port]
             else
               let ifaces = networkInterfaces sys;
                   addresses = [origin protocol ''localhost'' port]
               in push_names protocol (host options) port addresses ifaces)"

section \<open>addTimestamp\<close>

text \<open>
  \<^verbatim>\<open>
  export const addTimestamp = (url, time) => url + (/\?/.test(url) ? '&' : '?') + 't=' + time;
  \<close>
  The regular expression \<^verbatim>\<open>/\?/\<close> matches at the first position that holds a question mark.
\<close>

fun test_question_mark :: "string \<Rightarrow> bool" where
  "test_question_mark [] = False"
| "test_question_mark (c # cs) = (if c = CHR ''?'' then True else test_question_mark cs)"

definition addTimestamp :: "string \<Rightarrow> jsnum \<Rightarrow> string" where
  "addTimestamp url time =
     ((url @ (if test_question_mark url then ''&'' else ''?'')) @ ''t='') @ NumberToString time"

section \<open>Example surroundings\<close>

definition EADDRINUSE :: js_error where
  "EADDRINUSE = JsError (Some ''EADDRINUSE'') ''listen EADDRINUSE: address already in use''"

definition EACCES :: js_error where
  "EACCES = JsError (Some ''EACCES'') ''listen EACCES: permission denied''"

definition example_interfaces :: "(string \<times> iface list) list" where
  "example_interfaces =
     [(''lo'',
        [\<lparr>iface_family = ''IPv4'', iface_address = ''127.0.0.1'', iface_internal = True\<rparr>,
         \<lparr>iface_family = ''IPv6'', iface_address = ''::1'', iface_internal = True\<rparr>]),
      (''eth0'',
        [\<lparr>iface_family = ''IPv4'', iface_address = ''192.168.1.5'', iface_internal = False\<rparr>,
         \<lparr>iface_family = ''IPv6'', iface_address = ''fe80::1'', iface_internal = False\<rparr>]),
      (''wlan0'',
        [\<lparr>iface_family = ''IPv4'', iface_address = ''10.0.0.7'', iface_internal = False\<rparr>])]"

text \<open>
  A machine on which ports 8080 and 9999 are held by other processes, port 80 needs a
  privilege the process lacks, and every other port can be bound. Its string conversion is
  one that agrees with the language on strings of decimal digits.
\<close>

definition example_system :: system where
  "example_system =
     \<lparr> listen = (\<lambda>p. if p = Fin 8080 \<or> p = Fin 9999 then Some EADDRINUSE
                      else if p = Fin 80 then Some EACCES else None),
       env_PORT = None,
       networkInterfaces = example_interfaces,
       StringToNumber = parseInt_10 \<rparr>"

text \<open>A machine on which every port is held by another process.\<close>

definition all_taken_system :: system where
  "all_taken_system =
     \<lparr> listen = (\<lambda>p. Some EADDRINUSE),
       env_PORT = None,
       networkInterfaces = [],
       StringToNumber = parseInt_10 \<rparr>"

section \<open>Auxiliary facts\<close>

subsection \<open>The example surroundings\<close>

lemma example_listen_8080: "listen example_system (Fin 8080) = Some EADDRINUSE"
  by (simp add: example_system_def)

lemma example_listen_8081: "listen example_system (Fin 8081) = None"
  by (simp add: example_system_def)

lemma example_listen_9999: "listen example_system (Fin 9999) = Some EADDRINUSE"
  by (simp add: example_system_def)

lemma example_listen_80: "listen example_system (Fin 80) = Some EACCES"
  by (simp add: example_system_def)

lemma example_listen_0: "listen example_system (Fin 0) = None"
  by (simp add: example_system_def)

lemma example_listen_3000: "listen example_system (Fin 3000) = None"
  by (simp add: example_system_def)

lemma code_EADDRINUSE: "code EADDRINUSE = Some ''EADDRINUSE''"
  by (simp add: EADDRINUSE_def)

lemma code_EACCES: "code EACCES \<noteq> Some ''EADDRINUSE''"
  by (simp add: EACCES_def)

lemma digits_9999: "digits 9999 = ''9999''"
  by (simp add: digits.simps)

lemma digits_3000: "digits 3000 = ''3000''"
  by (simp add: digits.simps)

lemma digits_5: "digits 5 = ''5''"
  by (simp add: digits.simps)

lemma parseInt_10_9999: "parseInt_10 ''9999'' = Fin 9999"
  by (simp add: parseInt_10_def StrWhiteSpaceChar_def is_digit_def digit_value_def digits_value_def)

lemma parseInt_10_3000: "parseInt_10 ''3000'' = Fin 3000"
  by (simp add: parseInt_10_def StrWhiteSpaceChar_def is_digit_def digit_value_def digits_value_def)

subsection \<open>Decimal notation\<close>

text \<open>
  \<open>NumberToString\<close> writes an integer in the notation \<open>parseInt_10\<close> reads: parsing the
  printed number gives the number back.
\<close>

lemma digit_char_cases:
  assumes "d < 10"
  shows "d = 0 \<or> d = 1 \<or> d = 2 \<or> d = 3 \<or> d = 4 \<or> d = 5 \<or> d = 6 \<or> d = 7 \<or> d = 8 \<or> d = (9::nat)"
  using assms by arith

lemma digit_value_nth:
  assumes "d < 10"
  shows "digit_value (''0123456789'' ! d) = Some d"
  using digit_char_cases [OF assms] by (auto simp: digit_value_def)

lemma StrWhiteSpaceChar_nth:
  assumes "d < 10"
  shows "\<not> StrWhiteSpaceChar (''0123456789'' ! d)"
  using digit_char_cases [OF assms] by (auto simp: StrWhiteSpaceChar_def)

lemma sign_nth:
  assumes "d < 10"
  shows "''0123456789'' ! d \<noteq> CHR ''-'' \<and> ''0123456789'' ! d \<noteq> CHR ''+''"
  using digit_char_cases [OF assms] by auto

lemma digits_value_snoc:
  "digits_value (Z @ [c]) = 10 * digits_value Z + int (the (digit_value c))"
  by (simp add: digits_value_def)

lemma digits_value_digits: "digits_value (digits n) = int n"
proof (induction n rule: digits.induct)
  case (1 n)
  show ?case
  proof (cases "n < 10")
    case True
    then show ?thesis
      by (simp add: digits.simps [of n] digits_value_def digit_value_nth)
  next
    case False
    have "digits_value (digits n) = 10 * int (n div 10) + int (n mod 10)"
      using False "1.IH" by (simp add: digits.simps [of n] digits_value_snoc digit_value_nth)
    also have "\<dots> = int (10 * (n div 10) + n mod 10)"
      by (simp only: of_nat_add of_nat_mult of_nat_numeral)
    also have "\<dots> = int n"
      by simp
    finally show ?thesis .
  qed
qed

lemma digits_is_digit: "c \<in> set (digits n) \<Longrightarrow> is_digit c"
proof (induction n rule: digits.induct)
  case (1 n)
  show ?case
  proof (cases "n < 10")
    case True
    with "1.prems" show ?thesis
      by (simp add: digits.simps [of n] is_digit_def digit_value_nth)
  next
    case False
    with "1.prems" "1.IH" show ?thesis
      by (auto simp: digits.simps [of n] is_digit_def digit_value_nth)
  qed
qed

lemma digits_hd: "digits n \<noteq> [] \<and> (\<exists>d<10. hd (digits n) = ''0123456789'' ! d)"
proof (induction n rule: digits.induct)
  case (1 n)
  show ?case
  proof (cases "n < 10")
    case True
    then show ?thesis
      by (auto simp: digits.simps [of n])
  next
    case False
    with "1.IH" show ?thesis
      by (simp add: digits.simps [of n])
  qed
qed

lemma parseInt_10_digits: "parseInt_10 (digits n) = Fin (int n)"
proof -
  obtain d where d: "d < 10" "hd (digits n) = ''0123456789'' ! d" and ne: "digits n \<noteq> []"
    using digits_hd [of n] by blast
  have ws: "dropWhile StrWhiteSpaceChar (digits n) = digits n"
    using ne d StrWhiteSpaceChar_nth [OF d(1)] by (cases "digits n") auto
  have sg: "hd (digits n) \<noteq> CHR ''-''" "hd (digits n) \<noteq> CHR ''+''"
    using d sign_nth [OF d(1)] by auto
  have tk: "takeWhile is_digit (digits n) = digits n"
    by (simp add: digits_is_digit)
  show ?thesis
    by (simp add: parseInt_10_def Let_def ws sg tk ne digits_value_digits)
qed

lemma parseInt_10_minus_digits: "parseInt_10 (''-'' @ digits n) = Fin (- int n)"
proof -
  have tk: "takeWhile is_digit (digits n) = digits n"
    by (simp add: digits_is_digit)
  have ne: "digits n \<noteq> []"
    using digits_hd [of n] by blast
  show ?thesis
    by (simp add: parseInt_10_def Let_def StrWhiteSpaceChar_def tk ne digits_value_digits)
qed

lemma parseInt_10_NumberToString: "parseInt_10 (NumberToString (Fin t)) = Fin t"
proof (cases "t < 0")
  case True
  then show ?thesis
    using parseInt_10_minus_digits [of "nat (- t)"] by simp
next
  case False
  then show ?thesis
    using parseInt_10_digits [of "nat t"] by simp
qed

subsection \<open>The loop of getFreePort\<close>

text \<open>
  The promise tested by the \<^verbatim>\<open>if\<close> is an object, so the first iteration that runs
  leaves the loop with \<^verbatim>\<open>break\<close>; an iteration that does not run leaves \<open>port\<close> as it is.
\<close>

lemma getFreePort_while_port: "getFreePort_while sys found attempts port = port"
  by (simp add: getFreePort_while.simps)

lemma getFreePort_value:
  "getFreePort sys p = Fulfilled (case p of PortNumber n \<Rightarrow> n | PortString s \<Rightarrow> parseInt_10 s)"
  by (simp add: getFreePort_def getFreePort_while_port split: port_arg.splits)

subsection \<open>The loops of getServerAddresses\<close>

lemma push_ifaces_eq:
  "push_ifaces protocol h port addresses is =
     addresses @ map (\<lambda>i. origin protocol (iface_address i) port)
       (filter (\<lambda>i. iface_family i = ''IPv4'' \<and> iface_address i \<noteq> h \<and> \<not> iface_internal i) is)"
  by (induction "is" arbitrary: addresses) simp_all

lemma push_names_eq:
  "push_names protocol h port addresses ifaces =
     addresses @ map (\<lambda>i. origin protocol (iface_address i) port)
       (filter (\<lambda>i. iface_family i = ''IPv4'' \<and> iface_address i \<noteq> h \<and> \<not> iface_internal i)
         (concat (map snd ifaces)))"
proof (induction ifaces arbitrary: addresses)
  case Nil
  show ?case by simp
next
  case (Cons entry ifaces)
  obtain name "is" where entry: "entry = (name, is)"
    by (cases entry)
  show ?case
    by (simp add: entry Cons.IH push_ifaces_eq)
qed

lemma protocol_cases:
  "(if ToBoolean (case https options of None \<Rightarrow> Undefined | Some b \<Rightarrow> Boolean b)
    then ''https:'' else ''http:'') =
   (if https options = Some True then ''https:'' else ''http:'')"
  by (cases "https options") auto

subsection \<open>The test for a question mark\<close>

lemma test_question_mark_iff: "test_question_mark url \<longleftrightarrow> CHR ''?'' \<in> set url"
  by (induction url) auto

section \<open>Properties of getFreePort\<close>

text \<open>
  Claim C1 (sequential search for the first free port). The documentation of
  \<^verbatim>\<open>getFreePort\<close> promises the next free port at or after the start port. On the example
  machine port 8080 is taken and port 8081 is free: \<open>isPortFree\<close> settles to \<open>False\<close> on
  8080 and to \<open>True\<close> on 8081. \<open>getFreePort\<close> started at 8080 nevertheless returns 8080
  and not 8081, because it tests the promise and not the value the promise settles to.
\<close>

theorem getFreePort_start_taken_next_free:
  "isPortFree example_system (Fin 8080) = Fulfilled False
   \<and> isPortFree example_system (Fin 8081) = Fulfilled True
   \<and> getFreePort example_system (PortNumber (Fin 8080)) = Fulfilled (Fin 8080)
   \<and> getFreePort example_system (PortNumber (Fin 8080)) \<noteq> Fulfilled (Fin 8081)"
  by (simp add: getFreePort_value isPortFree_def example_listen_8080 example_listen_8081
      code_EADDRINUSE)

text \<open>
  Claim C2 (result within the 21 ports from the start, and the last of them when all are
  taken). On a machine where every port is taken, \<open>isPortFree\<close> settles to \<open>False\<close> on
  every port, and \<open>getFreePort\<close> started at 8080 returns 8080, not 8100: no second port
  is ever examined.
\<close>

theorem getFreePort_all_taken:
  "(\<forall>n. isPortFree all_taken_system (Fin n) = Fulfilled False)
   \<and> getFreePort all_taken_system (PortNumber (Fin 8080)) = Fulfilled (Fin 8080)
   \<and> getFreePort all_taken_system (PortNumber (Fin 8080)) \<noteq> Fulfilled (Fin (8080 + 20))"
  by (simp add: getFreePort_value isPortFree_def all_taken_system_def code_EADDRINUSE)

text \<open>
  Claim C3 (the result does not depend on the ports). For any two states of the machine
  and any argument, \<open>getFreePort\<close> returns the same value: the argument itself when it is a
  number, and its base-10 parse when it is a string. The loop never changes \<open>port\<close>,
  from whatever state it is entered, since the promise under test is truthy.
\<close>

theorem getFreePort_ignores_ports:
  "getFreePort sys1 P = getFreePort sys2 P
   \<and> getFreePort sys1 (PortNumber n) = Fulfilled n
   \<and> getFreePort sys1 (PortString s) = Fulfilled (parseInt_10 s)
   \<and> getFreePort_while sys1 found attempts port = port"
  by (simp add: getFreePort_value getFreePort_while_port)

section \<open>Properties of isPortFree\<close>

text \<open>
  Claim C4 (outcomes of the probe). \<open>isPortFree\<close> settles to \<open>True\<close> when the server came
  up and was closed; it settles to \<open>False\<close> exactly when listening failed with an error
  whose code is \<^verbatim>\<open>EADDRINUSE\<close>; and it rejects with the very error of any other failure.
\<close>

theorem isPortFree_outcomes:
  "(listen sys P = None \<longrightarrow> isPortFree sys P = Fulfilled True)
   \<and> (isPortFree sys P = Fulfilled False
        \<longleftrightarrow> (\<exists>err. listen sys P = Some err \<and> code err = Some ''EADDRINUSE''))
   \<and> (\<forall>err. listen sys P = Some err \<and> code err \<noteq> Some ''EADDRINUSE''
        \<longrightarrow> isPortFree sys P = Rejected err)"
  by (auto simp: isPortFree_def split: option.splits)

theorem isPortFree_outcomes_witness:
  "listen example_system (Fin 3000) = None
   \<and> isPortFree example_system (Fin 3000) = Fulfilled True
   \<and> listen example_system (Fin 8080) = Some EADDRINUSE
   \<and> code EADDRINUSE = Some ''EADDRINUSE''
   \<and> isPortFree example_system (Fin 8080) = Fulfilled False
   \<and> listen example_system (Fin 80) = Some EACCES
   \<and> code EACCES \<noteq> Some ''EADDRINUSE''
   \<and> isPortFree example_system (Fin 80) = Rejected EACCES"
  using isPortFree_outcomes [of example_system "Fin 3000"]
    isPortFree_outcomes [of example_system "Fin 8080"]
    isPortFree_outcomes [of example_system "Fin 80"]
  by (simp add: example_listen_3000 example_listen_8080 example_listen_80
      code_EADDRINUSE code_EACCES)

section \<open>Properties of getPort\<close>

text \<open>
  Claim C5 (a requested port that is taken is an error). When the port is requested, by a
  number in \<open>options.port\<close> or else by the environment variable, and listening on it fails
  with \<^verbatim>\<open>EADDRINUSE\<close>, \<open>getPort\<close> rejects with an error whose message is
  \<^verbatim>\<open>Another process is already running on port P. Please choose a different port.\<close> with the
  requested port for \<open>P\<close>; it does not go on to search for another port.
\<close>

theorem getPort_requested_port_taken:
  "(options_port options = Some (PortNumber n)
      \<and> listen sys n = Some err \<and> code err = Some ''EADDRINUSE''
      \<longrightarrow> getPort sys options =
            Rejected (JsError None (''Another process is already running on port ''
              @ NumberToString n @ ''. Please choose a different port.'')))
   \<and> ((\<forall>m. options_port options \<noteq> Some (PortNumber m)) \<and> env_PORT sys = Some s
      \<and> listen sys (StringToNumber sys s) = Some err \<and> code err = Some ''EADDRINUSE''
      \<longrightarrow> getPort sys options =
            Rejected (JsError None (''Another process is already running on port ''
              @ s @ ''. Please choose a different port.'')))"
proof (intro conjI impI)
  assume a: "options_port options = Some (PortNumber n)
      \<and> listen sys n = Some err \<and> code err = Some ''EADDRINUSE''"
  then have "userPort sys options = Number n"
    by (simp add: userPort_def)
  with a show "getPort sys options =
            Rejected (JsError None (''Another process is already running on port ''
              @ NumberToString n @ ''. Please choose a different port.''))"
    by (simp add: getPort_def isPortFree_def port_taken_message_def)
next
  assume a: "(\<forall>m. options_port options \<noteq> Some (PortNumber m)) \<and> env_PORT sys = Some s
      \<and> listen sys (StringToNumber sys s) = Some err \<and> code err = Some ''EADDRINUSE''"
  then have "userPort sys options = String s"
    by (simp add: userPort_def split: option.splits port_arg.splits)
  with a show "getPort sys options =
            Rejected (JsError None (''Another process is already running on port ''
              @ s @ ''. Please choose a different port.''))"
    by (simp add: getPort_def isPortFree_def port_taken_message_def)
qed

theorem getPort_requested_port_taken_witness:
  "options_port \<lparr>options_port = Some (PortNumber (Fin 9999))\<rparr> = Some (PortNumber (Fin 9999))
   \<and> listen example_system (Fin 9999) = Some EADDRINUSE
   \<and> code EADDRINUSE = Some ''EADDRINUSE''
   \<and> getPort example_system \<lparr>options_port = Some (PortNumber (Fin 9999))\<rparr> =
       Rejected (JsError None
         ''Another process is already running on port 9999. Please choose a different port.'')
   \<and> (\<forall>m. options_port \<lparr>options_port = Some (PortString ''3000'')\<rparr> \<noteq> Some (PortNumber m))
   \<and> env_PORT (example_system\<lparr>env_PORT := Some ''9999''\<rparr>) = Some ''9999''
   \<and> listen (example_system\<lparr>env_PORT := Some ''9999''\<rparr>)
        (StringToNumber (example_system\<lparr>env_PORT := Some ''9999''\<rparr>) ''9999'') = Some EADDRINUSE
   \<and> getPort (example_system\<lparr>env_PORT := Some ''9999''\<rparr>)
        \<lparr>options_port = Some (PortString ''3000'')\<rparr> =
       Rejected (JsError None
         ''Another process is already running on port 9999. Please choose a different port.'')"
proof -
  have s: "StringToNumber example_system ''9999'' = Fin 9999"
    by (simp add: example_system_def parseInt_10_9999)
  show ?thesis
    using getPort_requested_port_taken
        [of "\<lparr>options_port = Some (PortNumber (Fin 9999))\<rparr>" "Fin 9999" example_system EADDRINUSE]
      getPort_requested_port_taken
        [of "\<lparr>options_port = Some (PortString ''3000'')\<rparr>" _
          "example_system\<lparr>env_PORT := Some ''9999''\<rparr>" EADDRINUSE "''9999''"]
    by (simp add: s example_listen_9999 code_EADDRINUSE digits_9999)
qed

text \<open>
  Claim C6 (port 0 is a request). \<open>userPort\<close> is \<open>options.port\<close> whenever that is a number,
  zero included; otherwise the environment variable when it is set; otherwise undefined.
  \<open>getPort\<close> acts on it: a number in \<open>options.port\<close> makes the environment variable
  irrelevant to the outcome, and a requested number on which listening succeeds is
  returned, so \<open>getPort\<close> with \<open>options.port = 0\<close> and port 0 free returns 0; without a
  number in \<open>options.port\<close>, a port named by the environment variable on which listening
  succeeds is returned, as the number that unary \<^verbatim>\<open>+\<close> makes of it; and with neither,
  no port is requested and the outcome is that of \<open>getFreePort\<close> started at 8080.
\<close>

theorem getPort_zero_is_a_request:
  "(options_port options = Some (PortNumber n) \<longrightarrow> userPort sys options = Number n)
   \<and> ((\<forall>m. options_port options \<noteq> Some (PortNumber m)) \<and> env_PORT sys = Some s
        \<longrightarrow> userPort sys options = String s)
   \<and> ((\<forall>m. options_port options \<noteq> Some (PortNumber m)) \<and> env_PORT sys = None
        \<longrightarrow> userPort sys options = Undefined)
   \<and> (options_port options = Some (PortNumber n) \<and> listen sys n = None
        \<longrightarrow> getPort sys options = Fulfilled n)
   \<and> (options_port options = Some (PortNumber (Fin 0)) \<and> listen sys (Fin 0) = None
        \<longrightarrow> getPort sys options = Fulfilled (Fin 0))
   \<and> (options_port options = Some (PortNumber n)
        \<longrightarrow> getPort (sys\<lparr>env_PORT := e\<rparr>) options = getPort sys options)
   \<and> ((\<forall>m. options_port options \<noteq> Some (PortNumber m)) \<and> env_PORT sys = Some s
        \<and> listen sys (StringToNumber sys s) = None
        \<longrightarrow> getPort sys options = Fulfilled (StringToNumber sys s))
   \<and> ((\<forall>m. options_port options \<noteq> Some (PortNumber m)) \<and> env_PORT sys = None
        \<longrightarrow> getPort sys options = getFreePort sys (PortNumber (Fin 8080)))"
proof (intro conjI impI)
  show "userPort sys options = Number n" if "options_port options = Some (PortNumber n)"
    using that by (simp add: userPort_def)
  show "userPort sys options = String s"
    if "(\<forall>m. options_port options \<noteq> Some (PortNumber m)) \<and> env_PORT sys = Some s"
    using that by (simp add: userPort_def split: option.splits port_arg.splits)
  show "userPort sys options = Undefined"
    if "(\<forall>m. options_port options \<noteq> Some (PortNumber m)) \<and> env_PORT sys = None"
    using that by (simp add: userPort_def split: option.splits port_arg.splits)
  show "getPort sys options = Fulfilled n"
    if "options_port options = Some (PortNumber n) \<and> listen sys n = None"
    using that by (simp add: userPort_def getPort_def isPortFree_def)
  show "getPort sys options = Fulfilled (Fin 0)"
    if "options_port options = Some (PortNumber (Fin 0)) \<and> listen sys (Fin 0) = None"
    using that by (simp add: userPort_def getPort_def isPortFree_def)
  show "getPort (sys\<lparr>env_PORT := e\<rparr>) options = getPort sys options"
    if "options_port options = Some (PortNumber n)"
    using that by (simp add: userPort_def getPort_def isPortFree_def Let_def split: option.splits)
  show "getPort sys options = Fulfilled (StringToNumber sys s)"
    if a: "(\<forall>m. options_port options \<noteq> Some (PortNumber m)) \<and> env_PORT sys = Some s
        \<and> listen sys (StringToNumber sys s) = None"
  proof -
    from a have "userPort sys options = String s"
      by (simp add: userPort_def split: option.splits port_arg.splits)
    with a show ?thesis
      by (simp add: getPort_def isPortFree_def)
  qed
  show "getPort sys options = getFreePort sys (PortNumber (Fin 8080))"
    if a: "(\<forall>m. options_port options \<noteq> Some (PortNumber m)) \<and> env_PORT sys = None"
  proof -
    from a have "userPort sys options = Undefined"
      by (simp add: userPort_def split: option.splits port_arg.splits)
    then show ?thesis
      by (simp add: getPort_def)
  qed
qed

theorem getPort_zero_is_a_request_witness:
  "options_port \<lparr>options_port = Some (PortNumber (Fin 0))\<rparr> = Some (PortNumber (Fin 0))
   \<and> listen (example_system\<lparr>env_PORT := Some ''9999''\<rparr>) (Fin 0) = None
   \<and> userPort (example_system\<lparr>env_PORT := Some ''9999''\<rparr>)
        \<lparr>options_port = Some (PortNumber (Fin 0))\<rparr> = Number (Fin 0)
   \<and> getPort (example_system\<lparr>env_PORT := Some ''9999''\<rparr>)
        \<lparr>options_port = Some (PortNumber (Fin 0))\<rparr> = Fulfilled (Fin 0)
   \<and> getPort example_system \<lparr>options_port = Some (PortNumber (Fin 0))\<rparr> = Fulfilled (Fin 0)
   \<and> (\<forall>m. options_port \<lparr>options_port = Some (PortString ''8080'')\<rparr> \<noteq> Some (PortNumber m))
   \<and> env_PORT (example_system\<lparr>env_PORT := Some ''3000''\<rparr>) = Some ''3000''
   \<and> userPort (example_system\<lparr>env_PORT := Some ''3000''\<rparr>)
        \<lparr>options_port = Some (PortString ''8080'')\<rparr> = String ''3000''
   \<and> listen (example_system\<lparr>env_PORT := Some ''3000''\<rparr>)
        (StringToNumber (example_system\<lparr>env_PORT := Some ''3000''\<rparr>) ''3000'') = None
   \<and> getPort (example_system\<lparr>env_PORT := Some ''3000''\<rparr>)
        \<lparr>options_port = Some (PortString ''8080'')\<rparr> = Fulfilled (Fin 3000)
   \<and> (\<forall>m. options_port \<lparr>options_port = None\<rparr> \<noteq> Some (PortNumber m))
   \<and> env_PORT example_system = None
   \<and> userPort example_system \<lparr>options_port = None\<rparr> = Undefined
   \<and> getPort example_system \<lparr>options_port = None\<rparr> =
       getFreePort example_system (PortNumber (Fin 8080))"
proof -
  have s: "StringToNumber example_system ''3000'' = Fin 3000"
    by (simp add: example_system_def parseInt_10_3000)
  have e: "env_PORT example_system = None"
    by (simp add: example_system_def)
  note number_any_env = getPort_zero_is_a_request
    [of "\<lparr>options_port = Some (PortNumber (Fin 0))\<rparr>" "Fin 0"
      "example_system\<lparr>env_PORT := Some ''9999''\<rparr>"]
  note number_no_env = getPort_zero_is_a_request
    [of "\<lparr>options_port = Some (PortNumber (Fin 0))\<rparr>" "Fin 0" example_system]
  note env_only = getPort_zero_is_a_request
    [of "\<lparr>options_port = Some (PortString ''8080'')\<rparr>" _
      "example_system\<lparr>env_PORT := Some ''3000''\<rparr>" "''3000''"]
  note neither = getPort_zero_is_a_request [of "\<lparr>options_port = None\<rparr>" _ example_system]
  have 1: "userPort (example_system\<lparr>env_PORT := Some ''9999''\<rparr>)
        \<lparr>options_port = Some (PortNumber (Fin 0))\<rparr> = Number (Fin 0)"
    using number_any_env by simp
  have 2: "getPort (example_system\<lparr>env_PORT := Some ''9999''\<rparr>)
        \<lparr>options_port = Some (PortNumber (Fin 0))\<rparr> = Fulfilled (Fin 0)"
    using number_any_env by (simp add: example_listen_0)
  have 3: "getPort example_system \<lparr>options_port = Some (PortNumber (Fin 0))\<rparr> = Fulfilled (Fin 0)"
    using number_no_env by (simp add: example_listen_0)
  have 4: "userPort (example_system\<lparr>env_PORT := Some ''3000''\<rparr>)
        \<lparr>options_port = Some (PortString ''8080'')\<rparr> = String ''3000''"
    using env_only by simp
  have 5: "getPort (example_system\<lparr>env_PORT := Some ''3000''\<rparr>)
        \<lparr>options_port = Some (PortString ''8080'')\<rparr> = Fulfilled (Fin 3000)"
    using env_only by (simp add: s example_listen_3000)
  have 6: "userPort example_system \<lparr>options_port = None\<rparr> = Undefined"
    using neither by (simp add: e)
  have 7: "getPort example_system \<lparr>options_port = None\<rparr> =
       getFreePort example_system (PortNumber (Fin 8080))"
    using neither by (simp add: e)
  show ?thesis
    by (simp add: 1 2 3 4 5 6 7 s e example_listen_0 example_listen_3000)
qed

text \<open>
  Claim C7 (default port 8080). When \<open>options.port\<close> is not a number and the environment
  variable is not set, \<open>getPort\<close> returns what \<open>getFreePort\<close> started at 8080 returns; with
  port 8080 free that is 8080.
\<close>

theorem getPort_default_8080:
  "(\<forall>m. options_port options \<noteq> Some (PortNumber m)) \<and> env_PORT sys = None
   \<longrightarrow> getPort sys options = getFreePort sys (PortNumber (Fin 8080))
       \<and> (listen sys (Fin 8080) = None \<longrightarrow> getPort sys options = Fulfilled (Fin 8080))"
  by (auto simp: userPort_def getPort_def getFreePort_value split: option.splits port_arg.splits)

theorem getPort_default_8080_witness:
  "(\<forall>m. options_port \<lparr>options_port = None\<rparr> \<noteq> Some (PortNumber m))
   \<and> env_PORT (example_system\<lparr>listen := (\<lambda>p. None)\<rparr>) = None
   \<and> listen (example_system\<lparr>listen := (\<lambda>p. None)\<rparr>) (Fin 8080) = None
   \<and> getPort (example_system\<lparr>listen := (\<lambda>p. None)\<rparr>) \<lparr>options_port = None\<rparr> =
       getFreePort (example_system\<lparr>listen := (\<lambda>p. None)\<rparr>) (PortNumber (Fin 8080))
   \<and> getPort (example_system\<lparr>listen := (\<lambda>p. None)\<rparr>) \<lparr>options_port = None\<rparr> =
       Fulfilled (Fin 8080)"
  using getPort_default_8080 [of "\<lparr>options_port = None\<rparr>" "example_system\<lparr>listen := (\<lambda>p. None)\<rparr>"]
  by (simp add: example_system_def getFreePort_value)

section \<open>Properties of getServerAddresses\<close>

text \<open>
  Claim C8 (all interfaces). For an address with a port and the host \<^verbatim>\<open>0.0.0.0\<close>, the
  result starts with the \<^verbatim>\<open>localhost\<close> origin, followed by one origin for each reported
  interface address that is IPv4, not internal and not \<^verbatim>\<open>0.0.0.0\<close>, in the order reported,
  nothing sorted and nothing removed.
\<close>

theorem getServerAddresses_wildcard:
  assumes "host options = ''0.0.0.0''"
  shows "getServerAddresses sys (AddrInfo a) options =
     ((if https options = Some True then ''https:'' else ''http:'')
        @ ''//localhost:'' @ NumberToString (addr_port a))
     # map (\<lambda>i. (if https options = Some True then ''https:'' else ''http:'')
                  @ ''//'' @ iface_address i @ '':'' @ NumberToString (addr_port a))
         (filter (\<lambda>i. iface_family i = ''IPv4'' \<and> \<not> iface_internal i
                       \<and> iface_address i \<noteq> ''0.0.0.0'')
            (concat (map snd (networkInterfaces sys))))"
proof -
  have f: "(\<lambda>i. iface_family i = ''IPv4'' \<and> iface_address i \<noteq> ''0.0.0.0'' \<and> \<not> iface_internal i)
         = (\<lambda>i. iface_family i = ''IPv4'' \<and> \<not> iface_internal i \<and> iface_address i \<noteq> ''0.0.0.0'')"
    by (rule ext) blast
  show ?thesis
    unfolding getServerAddresses_def
    by (simp only: bound_addr.case Let_def protocol_cases assms push_names_eq f)
       (simp add: origin_def)
qed

theorem getServerAddresses_wildcard_witness:
  "host \<lparr>host = ''0.0.0.0'', https = Some True\<rparr> = ''0.0.0.0''
   \<and> getServerAddresses example_system
        (AddrInfo \<lparr>addr_address = ''0.0.0.0'', addr_family = ''IPv4'', addr_port = Fin 3000\<rparr>)
        \<lparr>host = ''0.0.0.0'', https = Some True\<rparr> =
      [''https://localhost:3000'', ''https://192.168.1.5:3000'', ''https://10.0.0.7:3000'']"
  using getServerAddresses_wildcard
    [of "\<lparr>host = ''0.0.0.0'', https = Some True\<rparr>" example_system
      "\<lparr>addr_address = ''0.0.0.0'', addr_family = ''IPv4'', addr_port = Fin 3000\<rparr>"]
  by (simp add: example_system_def example_interfaces_def digits_3000)

text \<open>
  Claim C9 (a single address). An address given as a string is returned alone. For an
  address with a port and a host other than \<^verbatim>\<open>0.0.0.0\<close> the result is the one origin built
  from the host as given and the port, with \<^verbatim>\<open>https:\<close> when \<open>https\<close> is set and \<^verbatim>\<open>http:\<close>
  otherwise.
\<close>

theorem getServerAddresses_single:
  "getServerAddresses sys (AddrString s) options = [s]
   \<and> (host options \<noteq> ''0.0.0.0'' \<longrightarrow>
        getServerAddresses sys (AddrInfo a) options =
          [(if https options = Some True then ''https:'' else ''http:'')
             @ ''//'' @ host options @ '':'' @ NumberToString (addr_port a)])"
  unfolding getServerAddresses_def
  by (simp only: bound_addr.case Let_def protocol_cases) (simp add: origin_def)

theorem getServerAddresses_single_witness:
  "getServerAddresses example_system (AddrString ''/tmp/wmr.sock'')
       \<lparr>host = ''0.0.0.0'', https = None\<rparr> = [''/tmp/wmr.sock'']
   \<and> host \<lparr>host = ''127.0.0.1'', https = Some False\<rparr> \<noteq> ''0.0.0.0''
   \<and> getServerAddresses example_system
        (AddrInfo \<lparr>addr_address = ''127.0.0.1'', addr_family = ''IPv4'', addr_port = Fin 3000\<rparr>)
        \<lparr>host = ''127.0.0.1'', https = Some False\<rparr> = [''http://127.0.0.1:3000'']"
  using getServerAddresses_single
      [of example_system "''/tmp/wmr.sock''" "\<lparr>host = ''0.0.0.0'', https = None\<rparr>"]
    getServerAddresses_single
      [of example_system _ "\<lparr>host = ''127.0.0.1'', https = Some False\<rparr>"
        "\<lparr>addr_address = ''127.0.0.1'', addr_family = ''IPv4'', addr_port = Fin 3000\<rparr>"]
  by (simp add: digits_3000)

section \<open>Properties of addTimestamp\<close>

text \<open>
  Claim C10 (the timestamp parameter). For every string \<open>url\<close> and integer \<open>t\<close>,
  \<open>addTimestamp\<close> returns \<open>url\<close> followed by \<^verbatim>\<open>&t=\<close> and \<open>t\<close> when \<open>url\<close> holds a question mark
  anywhere, and \<open>url\<close> followed by \<^verbatim>\<open>?t=\<close> and \<open>t\<close> otherwise. The function has no failing
  branch, and nothing else of \<open>url\<close> is inspected.
\<close>

theorem addTimestamp_separator:
  "(CHR ''?'' \<in> set url \<longrightarrow> addTimestamp url (Fin t) = url @ ''&t='' @ NumberToString (Fin t))
   \<and> (CHR ''?'' \<notin> set url \<longrightarrow> addTimestamp url (Fin t) = url @ ''?t='' @ NumberToString (Fin t))"
  by (simp add: addTimestamp_def test_question_mark_iff)

theorem addTimestamp_separator_witness:
  "CHR ''?'' \<notin> set ''http://x/y''
   \<and> addTimestamp ''http://x/y'' (Fin 5) = ''http://x/y?t=5''
   \<and> CHR ''?'' \<in> set ''http://x/y?a=1''
   \<and> addTimestamp ''http://x/y?a=1'' (Fin 5) = ''http://x/y?a=1&t=5''"
  using addTimestamp_separator [of "''http://x/y''" 5]
    addTimestamp_separator [of "''http://x/y?a=1''" 5]
  by (simp add: digits_5)

end
